theory Spec2Isabelle
  imports Main
begin

section \<open>Time-range algebra of the schedule service\<close>

text \<open>
  Instants are JavaScript \<open>Date\<close> values, modelled by their epoch time in
  milliseconds (\<open>getTime()\<close>), an integer. A range is the object
  \<open>{ start, end }\<close> that \<open>_removeTimeRange\<close> reads and builds. Isabelle
  identifiers cannot begin with an underscore, so the private helpers
  \<open>_removeTimeRange\<close> and \<open>_generateTimeSlots\<close> lose theirs.
\<close>

record time_range =
  range_start :: int
  range_end :: int

text \<open>
  The body of the \<open>for\<close> loop of \<open>_removeTimeRange\<close>: what is pushed on
  \<open>result\<close> for one range, the five tests in the order of the source. When no
  test applies the source pushes nothing.
\<close>

definition removeFromRange :: "int \<Rightarrow> int \<Rightarrow> time_range \<Rightarrow> time_range list" where
  "removeFromRange removeStart removeEnd r =
     (if range_end r \<le> removeStart \<or> range_start r \<ge> removeEnd then [r]
      else if removeStart \<le> range_start r \<and> removeEnd \<ge> range_end r then []
      else if removeStart > range_start r \<and> removeEnd < range_end r then
        [\<lparr>range_start = range_start r, range_end = removeStart\<rparr>,
         \<lparr>range_start = removeEnd, range_end = range_end r\<rparr>]
      else if removeStart \<le> range_start r \<and> removeEnd > range_start r then
        [\<lparr>range_start = removeEnd, range_end = range_end r\<rparr>]
      else if removeStart < range_end r \<and> removeEnd \<ge> range_end r then
        [\<lparr>range_start = range_start r, range_end = removeStart\<rparr>]
      else [])"

text \<open>The loop over \<open>availableRanges\<close>; \<open>result\<close> grows at its end.\<close>

fun removeTimeRange :: "time_range list \<Rightarrow> int \<Rightarrow> int \<Rightarrow> time_range list" where
  "removeTimeRange [] removeStart removeEnd = []"
| "removeTimeRange (r # availableRanges) removeStart removeEnd =
     removeFromRange removeStart removeEnd r @ removeTimeRange availableRanges removeStart removeEnd"

text \<open>
  The predicates of the range algebra. A range occupies the half-open interval
  from its start up to, not including, its end.
\<close>

definition range_set :: "time_range \<Rightarrow> int set" where
  "range_set r = {range_start r ..< range_end r}"

definition covered :: "time_range list \<Rightarrow> int set" where
  "covered rs = (\<Union>r \<in> set rs. range_set r)"

definition proper_range :: "time_range \<Rightarrow> bool" where
  "proper_range r = (range_start r < range_end r)"

definition ranges_overlap :: "time_range \<Rightarrow> time_range \<Rightarrow> bool" where
  "ranges_overlap a b = (range_start a < range_end b \<and> range_start b < range_end a)"

fun pairwise_disjoint :: "time_range list \<Rightarrow> bool" where
  "pairwise_disjoint [] = True"
| "pairwise_disjoint (r # rs) = (list_all (\<lambda>q. \<not> ranges_overlap r q) rs \<and> pairwise_disjoint rs)"

definition sorted_by_start :: "time_range list \<Rightarrow> bool" where
  "sorted_by_start rs = sorted (map range_start rs)"

definition disjoint_sorted :: "time_range list \<Rightarrow> bool" where
  "disjoint_sorted rs = (list_all proper_range rs \<and> sorted_by_start rs \<and> pairwise_disjoint rs)"

text \<open>
  Lines 685 to 715 of \<open>_generateAvailabilitySlots\<close>: one schedule period of a
  day starts as a single range, then every partial exception of the day is
  removed, then every appointment of the day. The exceptions come as the
  instants \<open>(exceptionStart, exceptionEnd)\<close> the source computes with
  \<open>setHours\<close>, the appointments as \<open>(startTime, endTime)\<close>.
\<close>

fun removeTimeRanges :: "time_range list \<Rightarrow> (int \<times> int) list \<Rightarrow> time_range list" where
  "removeTimeRanges availableRanges [] = availableRanges"
| "removeTimeRanges availableRanges ((removeStart, removeEnd) # rest) =
     removeTimeRanges (removeTimeRange availableRanges removeStart removeEnd) rest"

definition availableRangesOfPeriod ::
  "int \<Rightarrow> int \<Rightarrow> (int \<times> int) list \<Rightarrow> (int \<times> int) list \<Rightarrow> time_range list" where
  "availableRangesOfPeriod scheduleStart scheduleEnd partialExceptions dayAppointments =
     removeTimeRanges
       (removeTimeRanges [\<lparr>range_start = scheduleStart, range_end = scheduleEnd\<rparr>] partialExceptions)
       dayAppointments"

text \<open>The same two loops in the other order, for comparison with the source's order.\<close>

definition availableRangesOfPeriod_appointments_first ::
  "int \<Rightarrow> int \<Rightarrow> (int \<times> int) list \<Rightarrow> (int \<times> int) list \<Rightarrow> time_range list" where
  "availableRangesOfPeriod_appointments_first scheduleStart scheduleEnd partialExceptions dayAppointments =
     removeTimeRanges
       (removeTimeRanges [\<lparr>range_start = scheduleStart, range_end = scheduleEnd\<rparr>] dayAppointments)
       partialExceptions"

definition removal_ok :: "int \<times> int \<Rightarrow> bool" where
  "removal_ok x = (fst x \<le> snd x)"

subsection \<open>Slot generation\<close>








section \<open>The store, the appointment service and the schedule modules\<close>

text \<open>
  The Prisma tables the modelled functions read and write, as lists of rows in
  insertion order; \<open>findFirst\<close> and \<open>findUnique\<close> return the first matching
  row. Status values are the strings the source compares. Timestamps are epoch
  milliseconds. A clock time is the string \<open>HH:MM\<close>, modelled by its hour and
  minute. The server's local time zone is taken to be UTC, so that local-clock
  operations (\<open>setHours\<close>, \<open>getDay\<close>, \<open>toTimeString\<close>, parsing a date-time
  string without offset) are arithmetic on the epoch time.
\<close>

type_synonym clock = "int \<times> int"

datatype error =
    BadRequestError string
  | NotFoundError string
  | RecordNotFound string
  | TypeError

record doctor =
  doctor_id :: string
  doctor_practiceId :: string

record appointment =
  appt_id :: string
  appt_patientId :: string
  appt_doctorId :: string
  appt_serviceId :: string
  appt_practiceId :: string
  appt_startTime :: int
  appt_endTime :: int
  appt_reason :: "string option"
  appt_notes :: "string option"
  appt_status :: string
  appt_bookingSource :: string
  appt_cancellationReason :: "string option"

text \<open>
  A row of the \<open>schedule\<close> table. The two modules that use the table read its
  time columns differently: \<open>createAppointment\<close> of the appointment service
  pastes \<open>schedule.startTime\<close> into a date-time string (a clock time) and
  matches \<open>date\<close> against the calendar date of the appointment, while
  \<open>deleteSchedule\<close> of the schedule controller compares the column with the
  timestamps of appointments. The column type is therefore a parameter. The
  \<open>date\<close> column is the calendar date \<open>YYYY-MM-DD\<close>, as its day number
  since 1970-01-01.
\<close>

record 't schedule =
  sched_id :: string
  sched_practiceId :: string
  sched_doctorId :: string
  sched_date :: int
  sched_startTime :: 't
  sched_endTime :: 't

record doctor_schedule =
  ds_doctorId :: string
  ds_dayOfWeek :: int
  ds_startTime :: clock
  ds_endTime :: clock
  ds_isAvailable :: bool
  ds_effectiveDate :: "int option"
  ds_expiryDate :: "int option"

record schedule_exception =
  ex_doctorId :: string
  ex_date :: int
  ex_isFullDay :: bool
  ex_startTime :: "clock option"
  ex_endTime :: "clock option"

record 't store =
  doctors :: "doctor list"
  services :: "string list"
  patients :: "string list"
  appointments :: "appointment list"
  schedules :: "'t schedule list"
  doctorSchedules :: "doctor_schedule list"
  scheduleExceptions :: "schedule_exception list"

subsection \<open>Dates\<close>

definition isoDate :: "int \<Rightarrow> int" where
  \<comment> \<open>\<open>new Date(t).toISOString().split("T")[0]\<close>: the UTC calendar date\<close>
  "isoDate t = t div 86400000"

definition parseDateTime :: "int \<Rightarrow> clock \<Rightarrow> int" where
  \<comment> \<open>\<open>new Date(`${date}T${time}`)\<close>\<close>
  "parseDateTime day c = day * 86400000 + fst c * 3600000 + snd c * 60000"

definition setHours :: "int \<Rightarrow> int \<Rightarrow> int \<Rightarrow> int" where
  \<comment> \<open>\<open>d.setHours(h, m, 0, 0)\<close>\<close>
  "setHours t h m = t - t mod 86400000 + h * 3600000 + m * 60000"

definition getDay :: "int \<Rightarrow> int" where
  \<comment> \<open>day of the week, 0 is Sunday; 1970-01-01 was a Thursday\<close>
  "getDay t = (t div 86400000 + 4) mod 7"

definition toTimeString :: "int \<Rightarrow> clock" where
  \<comment> \<open>\<open>d.toTimeString().substring(0, 5)\<close>\<close>
  "toTimeString t = ((t mod 86400000) div 3600000, (t mod 3600000) div 60000)"

definition clock_lte :: "clock \<Rightarrow> clock \<Rightarrow> bool" where
  \<comment> \<open>string order on zero-padded \<open>HH:MM\<close>\<close>
  "clock_lte a b = (fst a < fst b \<or> (fst a = fst b \<and> snd a \<le> snd b))"

subsection \<open>\<open>createAppointment\<close> (appointment service)\<close>

text \<open>
  The argument of \<open>createAppointment\<close>. An identifier that is missing and one
  that is the empty string are both falsy and take the same branch, so a
  missing identifier is the empty string here. \<open>endTime\<close> is not among the
  required fields the source tests; the model covers requests whose
  \<open>endTime\<close> is a valid date.
\<close>

record appointment_data =
  ad_patientId :: string
  ad_doctorId :: string
  ad_serviceId :: string
  ad_startTime :: "int option"
  ad_endTime :: int
  ad_reason :: "string option"
  ad_notes :: "string option"
  ad_status :: "string option"
  ad_bookingSource :: "string option"

definition conflicts_with :: "int \<Rightarrow> int \<Rightarrow> appointment \<Rightarrow> bool" where
  \<comment> \<open>the \<open>OR\<close> of the conflict query, lines 87 to 100\<close>
  "conflicts_with startTime endTime a =
     ((appt_startTime a \<le> startTime \<and> appt_endTime a > startTime)
    \<or> (appt_startTime a < endTime \<and> appt_endTime a \<ge> endTime)
    \<or> (appt_startTime a \<ge> startTime \<and> appt_endTime a \<le> endTime))"

definition findConflictingAppointment ::
  "appointment list \<Rightarrow> string \<Rightarrow> int \<Rightarrow> int \<Rightarrow> appointment option" where
  \<comment> \<open>lines 83 to 102\<close>
  "findConflictingAppointment appts doctorId startTime endTime =
     find (\<lambda>a. appt_doctorId a = doctorId \<and> appt_status a \<noteq> ''CANCELLED''
                \<and> conflicts_with startTime endTime a) appts"

text \<open>
  Lines 39 to 130: every check before the insert. All of them only read the
  store. The result is the doctor row, whose practice the insert uses.
\<close>

definition createAppointment_checks :: "int \<Rightarrow> clock store \<Rightarrow> appointment_data \<Rightarrow> error + doctor" where
  "createAppointment_checks now st appointmentData =
     (case ad_startTime appointmentData of
        None \<Rightarrow> Inl (BadRequestError ''Missing required fields'')
      | Some startTime \<Rightarrow>
          if ad_patientId appointmentData = [] \<or> ad_doctorId appointmentData = []
             \<or> ad_serviceId appointmentData = []
          then Inl (BadRequestError ''Missing required fields'')
          else if startTime \<ge> ad_endTime appointmentData
          then Inl (BadRequestError ''End time must be after start time'')
          else if startTime < now
          then Inl (BadRequestError ''Cannot book appointment in the past'')
          else
            (case find (\<lambda>d. doctor_id d = ad_doctorId appointmentData) (doctors st) of
               None \<Rightarrow> Inl (NotFoundError (''Doctor with ID '' @ ad_doctorId appointmentData @ '' not found''))
             | Some doctor \<Rightarrow>
                 if ad_serviceId appointmentData \<notin> set (services st)
                 then Inl (NotFoundError (''Service with ID '' @ ad_serviceId appointmentData @ '' not found''))
                 else if ad_patientId appointmentData \<notin> set (patients st)
                 then Inl (NotFoundError (''Patient with ID '' @ ad_patientId appointmentData @ '' not found''))
                 else
                   (case findConflictingAppointment (appointments st) (ad_doctorId appointmentData)
                           startTime (ad_endTime appointmentData) of
                      Some conflictingAppointment \<Rightarrow>
                        Inl (BadRequestError ''Doctor is not available at this time'')
                    | None \<Rightarrow>
                        (case find (\<lambda>s. sched_doctorId s = ad_doctorId appointmentData
                                         \<and> sched_date s = isoDate startTime) (schedules st) of
                           None \<Rightarrow> Inl (BadRequestError ''Doctor is not scheduled to work on this day'')
                         | Some schedule \<Rightarrow>
                             if startTime < parseDateTime (isoDate startTime) (sched_startTime schedule)
                                \<or> ad_endTime appointmentData
                                    > parseDateTime (isoDate startTime) (sched_endTime schedule)
                             then Inl (BadRequestError
                                    ''Appointment time is outside of doctor's working hours'')
                             else Inr doctor))))"

text \<open>
  Lines 132 to 156: the insert. The identifier of the new row is generated by
  the store (a UUID); it is the argument \<open>newId\<close>. The insert runs only
  after the checks, which reject a request without \<open>startTime\<close>, so the
  value written for a missing \<open>startTime\<close> is never used.
\<close>

definition createAppointment_insert ::
  "string \<Rightarrow> clock store \<Rightarrow> appointment_data \<Rightarrow> doctor \<Rightarrow> appointment \<times> clock store" where
  "createAppointment_insert newId st appointmentData doctor =
     (let appointment =
        \<lparr>appt_id = newId,
         appt_patientId = ad_patientId appointmentData,
         appt_doctorId = ad_doctorId appointmentData,
         appt_serviceId = ad_serviceId appointmentData,
         appt_practiceId = doctor_practiceId doctor,
         appt_startTime = (case ad_startTime appointmentData of Some t \<Rightarrow> t | None \<Rightarrow> 0),
         appt_endTime = ad_endTime appointmentData,
         appt_reason = ad_reason appointmentData,
         appt_notes = ad_notes appointmentData,
         appt_status = (case ad_status appointmentData of Some s \<Rightarrow> s | None \<Rightarrow> ''PENDING''),
         appt_bookingSource =
           (case ad_bookingSource appointmentData of Some b \<Rightarrow> b | None \<Rightarrow> ''ONLINE''),
         appt_cancellationReason = None\<rparr>
      in (appointment, st\<lparr>appointments := appointments st @ [appointment]\<rparr>))"

text \<open>
  The whole call, when nothing else touches the store between its checks and
  its insert. The notifications after the insert are sent inside a \<open>try\<close>
  whose \<open>catch\<close> only logs; they change neither the result nor the store.
\<close>

definition createAppointment ::
  "int \<Rightarrow> string \<Rightarrow> clock store \<Rightarrow> appointment_data \<Rightarrow> (error + appointment) \<times> clock store" where
  "createAppointment now newId st appointmentData =
     (case createAppointment_checks now st appointmentData of
        Inl e \<Rightarrow> (Inl e, st)
      | Inr doctor \<Rightarrow>
          (case createAppointment_insert newId st appointmentData doctor of
             (appointment, st') \<Rightarrow> (Inr appointment, st')))"

text \<open>
  Two calls in flight. Every \<open>await\<close> of \<open>createAppointment\<close> is a point where
  another call may run; the source opens no transaction around its reads and
  its insert. A call is here cut in two atomic parts, the reads (lines 39 to
  130) and the insert (lines 132 to 156), and a schedule names which call
  takes its next part.
\<close>

datatype task =
    Calling appointment_data string
  | Checked appointment_data string doctor
  | Returned "error + appointment"

fun step_task :: "int \<Rightarrow> clock store \<Rightarrow> task \<Rightarrow> task \<times> clock store" where
  "step_task now st (Calling appointmentData newId) =
     (case createAppointment_checks now st appointmentData of
        Inl e \<Rightarrow> (Returned (Inl e), st)
      | Inr doctor \<Rightarrow> (Checked appointmentData newId doctor, st))"
| "step_task now st (Checked appointmentData newId doctor) =
     (case createAppointment_insert newId st appointmentData doctor of
        (appointment, st') \<Rightarrow> (Returned (Inr appointment), st'))"
| "step_task now st (Returned r) = (Returned r, st)"

fun run_tasks :: "int \<Rightarrow> nat list \<Rightarrow> clock store \<times> task list \<Rightarrow> clock store \<times> task list" where
  "run_tasks now [] cfg = cfg"
| "run_tasks now (i # order) (st, tasks) =
     (if i < length tasks
      then (case step_task now st (tasks ! i) of
              (t, st') \<Rightarrow> run_tasks now order (st', tasks[i := t]))
      else run_tasks now order (st, tasks))"

definition overlapping_pair :: "appointment \<Rightarrow> appointment \<Rightarrow> bool" where
  \<comment> \<open>two rows of one doctor, neither cancelled, whose intervals overlap\<close>
  "overlapping_pair a b =
     (appt_doctorId a = appt_doctorId b
      \<and> appt_status a \<noteq> ''CANCELLED'' \<and> appt_status b \<noteq> ''CANCELLED''
      \<and> appt_startTime a < appt_endTime b \<and> appt_startTime b < appt_endTime a)"

fun double_booked :: "appointment list \<Rightarrow> bool" where
  "double_booked [] = False"
| "double_booked (a # appts) = (list_ex (overlapping_pair a) appts \<or> double_booked appts)"

subsection \<open>\<open>cancelAppointment\<close> and \<open>updateAppointment\<close> (appointment service)\<close>

text \<open>
  Both functions read the appointment with \<open>getAppointmentById\<close>, which throws
  when there is none. As in \<open>createAppointment\<close>, the notifications they send
  after the write sit in a \<open>try\<close> whose \<open>catch\<close> only logs.
\<close>

definition getAppointmentById :: "'t store \<Rightarrow> string \<Rightarrow> error + appointment" where
  "getAppointmentById st id' =
     (case find (\<lambda>a. appt_id a = id') (appointments st) of
        None \<Rightarrow> Inl (NotFoundError (''Appointment with ID '' @ id' @ '' not found''))
      | Some appointment \<Rightarrow> Inr appointment)"

definition update_appointment_row ::
  "string \<Rightarrow> (appointment \<Rightarrow> appointment) \<Rightarrow> 't store \<Rightarrow> 't store" where
  \<comment> \<open>\<open>prisma.appointment.update({ where: { id }, data })\<close>\<close>
  "update_appointment_row id' f st =
     st\<lparr>appointments := map (\<lambda>a. if appt_id a = id' then f a else a) (appointments st)\<rparr>"

definition truthy :: "string option \<Rightarrow> bool" where
  "truthy x = (case x of None \<Rightarrow> False | Some v \<Rightarrow> v \<noteq> [])"

definition cancellation :: "string option \<Rightarrow> appointment \<Rightarrow> appointment" where
  \<comment> \<open>the \<open>data\<close> of the update, lines 422 to 425\<close>
  "cancellation reason a =
     a\<lparr>appt_status := ''CANCELLED'',
       appt_cancellationReason := (if truthy reason then reason else Some ''No reason provided'')\<rparr>"

definition cancelAppointment ::
  "int \<Rightarrow> 't store \<Rightarrow> string \<Rightarrow> string option \<Rightarrow> (error + appointment) \<times> 't store" where
  "cancelAppointment now st id' reason =
     (case getAppointmentById st id' of
        Inl e \<Rightarrow> (Inl e, st)
      | Inr appointment \<Rightarrow>
          if appt_status appointment = ''CANCELLED''
          then (Inl (BadRequestError ''Appointment is already cancelled''), st)
          else if appt_startTime appointment < now
          then (Inl (BadRequestError ''Cannot cancel a past appointment''), st)
          else (Inr (cancellation reason appointment),
                update_appointment_row id' (cancellation reason) st))"

text \<open>
  A time of the update arrives as an ISO 8601 string. The source parses it
  (\<open>new Date(string)\<close>) and also compares it, as a string, with
  \<open>toISOString()\<close> of the stored time. The model keeps of the string the
  instant it denotes and whether it is written exactly as \<open>toISOString\<close>
  writes that instant; the string equals \<open>toISOString()\<close> of a stored time
  exactly when it is written that way and denotes the stored instant.
\<close>

record iso_string =
  iso_instant :: int
  iso_canonical :: bool

definition differs_from_stored :: "iso_string \<Rightarrow> int \<Rightarrow> bool" where
  \<comment> \<open>\<open>string !== stored.toISOString()\<close>\<close>
  "differs_from_stored str stored = (\<not> (iso_canonical str \<and> iso_instant str = stored))"

text \<open>
  The argument of \<open>updateAppointment\<close>: every field may be absent
  (\<open>undefined\<close>).
\<close>

record appointment_update =
  au_patientId :: "string option"
  au_doctorId :: "string option"
  au_serviceId :: "string option"
  au_startTime :: "iso_string option"
  au_endTime :: "iso_string option"
  au_reason :: "string option"
  au_notes :: "string option"
  au_status :: "string option"

definition findConflictingAppointmentExcept ::
  "appointment list \<Rightarrow> string \<Rightarrow> string \<Rightarrow> int \<Rightarrow> int \<Rightarrow> appointment option" where
  \<comment> \<open>lines 313 to 333\<close>
  "findConflictingAppointmentExcept appts doctorId id' startTime endTime =
     find (\<lambda>a. appt_doctorId a = doctorId \<and> appt_id a \<noteq> id' \<and> appt_status a \<noteq> ''CANCELLED''
                \<and> conflicts_with startTime endTime a) appts"

definition changes_doctor_or_time :: "appointment \<Rightarrow> appointment_update \<Rightarrow> bool" where
  \<comment> \<open>the condition of lines 298 to 305\<close>
  "changes_doctor_or_time appointment appointmentData =
     ((truthy (au_doctorId appointmentData) \<and> au_doctorId appointmentData \<noteq> Some (appt_doctorId appointment))
    \<or> (case au_startTime appointmentData of None \<Rightarrow> False
        | Some str \<Rightarrow> differs_from_stored str (appt_startTime appointment))
    \<or> (case au_endTime appointmentData of None \<Rightarrow> False
        | Some str \<Rightarrow> differs_from_stored str (appt_endTime appointment)))"

definition target_doctorId :: "appointment \<Rightarrow> appointment_update \<Rightarrow> string" where
  \<comment> \<open>\<open>appointmentData.doctorId || appointment.doctorId\<close>\<close>
  "target_doctorId appointment appointmentData =
     (case au_doctorId appointmentData of
        None \<Rightarrow> appt_doctorId appointment
      | Some d \<Rightarrow> if d = [] then appt_doctorId appointment else d)"

definition target_startTime :: "appointment \<Rightarrow> appointment_update \<Rightarrow> int" where
  "target_startTime appointment appointmentData =
     (case au_startTime appointmentData of
        None \<Rightarrow> appt_startTime appointment | Some str \<Rightarrow> iso_instant str)"

definition target_endTime :: "appointment \<Rightarrow> appointment_update \<Rightarrow> int" where
  "target_endTime appointment appointmentData =
     (case au_endTime appointmentData of
        None \<Rightarrow> appt_endTime appointment | Some str \<Rightarrow> iso_instant str)"

definition updateData :: "appointment_update \<Rightarrow> appointment \<Rightarrow> appointment" where
  \<comment> \<open>lines 341 to 359: only the fields that are provided\<close>
  "updateData appointmentData a =
     a\<lparr>appt_patientId := (case au_patientId appointmentData of None \<Rightarrow> appt_patientId a | Some v \<Rightarrow> v),
       appt_doctorId := (case au_doctorId appointmentData of None \<Rightarrow> appt_doctorId a | Some v \<Rightarrow> v),
       appt_serviceId := (case au_serviceId appointmentData of None \<Rightarrow> appt_serviceId a | Some v \<Rightarrow> v),
       appt_startTime :=
         (case au_startTime appointmentData of None \<Rightarrow> appt_startTime a | Some v \<Rightarrow> iso_instant v),
       appt_endTime :=
         (case au_endTime appointmentData of None \<Rightarrow> appt_endTime a | Some v \<Rightarrow> iso_instant v),
       appt_reason := (case au_reason appointmentData of None \<Rightarrow> appt_reason a | Some v \<Rightarrow> Some v),
       appt_notes := (case au_notes appointmentData of None \<Rightarrow> appt_notes a | Some v \<Rightarrow> Some v),
       appt_status := (case au_status appointmentData of None \<Rightarrow> appt_status a | Some v \<Rightarrow> v)\<rparr>"

definition connect_error :: "'t store \<Rightarrow> appointment_update \<Rightarrow> error option" where
  \<comment> \<open>\<open>connect\<close> to a row that does not exist makes \<open>prisma.appointment.update\<close> throw\<close>
  "connect_error st appointmentData =
     (if (case au_patientId appointmentData of None \<Rightarrow> False | Some v \<Rightarrow> v \<notin> set (patients st))
      then Some (RecordNotFound ''patient'')
      else if (case au_doctorId appointmentData of None \<Rightarrow> False
               | Some v \<Rightarrow> v \<notin> doctor_id ` set (doctors st))
      then Some (RecordNotFound ''doctor'')
      else if (case au_serviceId appointmentData of None \<Rightarrow> False | Some v \<Rightarrow> v \<notin> set (services st))
      then Some (RecordNotFound ''service'')
      else None)"

definition updateAppointment ::
  "'t store \<Rightarrow> string \<Rightarrow> appointment_update \<Rightarrow> (error + appointment) \<times> 't store" where
  "updateAppointment st id' appointmentData =
     (case getAppointmentById st id' of
        Inl e \<Rightarrow> (Inl e, st)
      | Inr appointment \<Rightarrow>
          if (case (au_startTime appointmentData, au_endTime appointmentData) of
                (Some s, Some e) \<Rightarrow> iso_instant s \<ge> iso_instant e | _ \<Rightarrow> False)
          then (Inl (BadRequestError ''End time must be after start time''), st)
          else if changes_doctor_or_time appointment appointmentData
                  \<and> findConflictingAppointmentExcept (appointments st)
                        (target_doctorId appointment appointmentData) id'
                        (target_startTime appointment appointmentData)
                        (target_endTime appointment appointmentData) \<noteq> None
          then (Inl (BadRequestError ''Doctor is not available at this time''), st)
          else
            (case connect_error st appointmentData of
               Some e \<Rightarrow> (Inl e, st)
             | None \<Rightarrow>
                 (Inr (updateData appointmentData appointment),
                  update_appointment_row id' (updateData appointmentData) st)))"

subsection \<open>\<open>isTimeSlotAvailable\<close> (schedule service)\<close>

text \<open>
  The loop over the exceptions of the day, lines 459 to 478: \<open>Inr True\<close> when
  a partial exception overlaps the slot. A partial exception without times
  makes \<open>exception.startTime.split\<close> throw.
\<close>

fun partialExceptionOverlaps :: "int \<Rightarrow> int \<Rightarrow> schedule_exception list \<Rightarrow> error + bool" where
  "partialExceptionOverlaps start end' [] = Inr False"
| "partialExceptionOverlaps start end' (exception # exceptions) =
     (if ex_isFullDay exception then partialExceptionOverlaps start end' exceptions
      else
        (case (ex_startTime exception, ex_endTime exception) of
           (Some exS, Some exE) \<Rightarrow>
             (let exStart = setHours start (fst exS) (snd exS);
                  exEnd = setHours start (fst exE) (snd exE)
              in if \<not> (end' \<le> exStart \<or> start \<ge> exEnd) then Inr True
                 else partialExceptionOverlaps start end' exceptions)
         | _ \<Rightarrow> Inl TypeError))"

definition overlappingAppointment :: "appointment list \<Rightarrow> string \<Rightarrow> int \<Rightarrow> int \<Rightarrow> appointment option" where
  \<comment> \<open>lines 481 to 494\<close>
  "overlappingAppointment appts doctorId start end' =
     find (\<lambda>a. appt_doctorId a = doctorId
                \<and> \<not> (appt_status a = ''CANCELLED'' \<or> appt_status a = ''NO_SHOW'')
                \<and> appt_startTime a < end' \<and> appt_endTime a > start) appts"

definition isTimeSlotAvailable :: "'t store \<Rightarrow> string \<Rightarrow> int \<Rightarrow> int \<Rightarrow> error + bool" where
  "isTimeSlotAvailable st doctorId start end' =
     (let dayOfWeek = getDay start;
          timeStr = toTimeString start;
          endTimeStr = toTimeString end';
          dateForExceptions = setHours start 0 0
      in case find (\<lambda>s. ds_doctorId s = doctorId \<and> ds_dayOfWeek s = dayOfWeek
                        \<and> clock_lte (ds_startTime s) timeStr \<and> clock_lte endTimeStr (ds_endTime s)
                        \<and> (case ds_effectiveDate s of None \<Rightarrow> True | Some d \<Rightarrow> d \<le> start)
                        \<and> (case ds_expiryDate s of None \<Rightarrow> True | Some d \<Rightarrow> d \<ge> end')
                        \<and> ds_isAvailable s) (doctorSchedules st) of
           None \<Rightarrow> Inr False
         | Some schedule \<Rightarrow>
             (let exceptions = filter (\<lambda>e. ex_doctorId e = doctorId \<and> ex_date e = dateForExceptions)
                                 (scheduleExceptions st)
              in if find ex_isFullDay exceptions \<noteq> None then Inr False
                 else
                   (case partialExceptionOverlaps start end' exceptions of
                      Inl e \<Rightarrow> Inl e
                    | Inr True \<Rightarrow> Inr False
                    | Inr False \<Rightarrow>
                        if overlappingAppointment (appointments st) doctorId start end' \<noteq> None
                        then Inr False
                        else Inr True)))"

subsection \<open>\<open>deleteSchedule\<close> (schedule controller)\<close>

definition schedule_conflicts :: "int schedule \<Rightarrow> string \<Rightarrow> appointment list \<Rightarrow> appointment list" where
  \<comment> \<open>lines 387 to 401\<close>
  "schedule_conflicts schedule practiceId appts =
     filter (\<lambda>a. appt_doctorId a = sched_doctorId schedule \<and> appt_practiceId a = practiceId
                  \<and> appt_startTime a \<ge> sched_startTime schedule
                  \<and> appt_endTime a \<le> sched_endTime schedule
                  \<and> (appt_status a = ''scheduled'' \<or> appt_status a = ''confirmed'')) appts"

definition deleteSchedule :: "int store \<Rightarrow> string \<Rightarrow> string \<Rightarrow> (error + string) \<times> int store" where
  "deleteSchedule st practiceId scheduleId =
     (case find (\<lambda>s. sched_id s = scheduleId \<and> sched_practiceId s = practiceId) (schedules st) of
        None \<Rightarrow> (Inl (NotFoundError ''Schedule not found''), st)
      | Some schedule \<Rightarrow>
          if length (schedule_conflicts schedule practiceId (appointments st)) > 0
          then (Inl (BadRequestError ''Cannot delete schedule with existing appointments''), st)
          else (Inr ''Schedule deleted successfully'',
                st\<lparr>schedules := filter (\<lambda>s. sched_id s \<noteq> scheduleId) (schedules st)\<rparr>))"

subsection \<open>Example data\<close>

text \<open>
  One doctor of one practice, working 09:00 to 17:00 on Friday 2024-10-04 (day
  20000 since 1970-01-01, which begins at 1728000000000 ms), in the dated
  \<open>schedule\<close> table and in the weekly \<open>doctorSchedule\<close> table.
\<close>

definition example_store :: "appointment list \<Rightarrow> schedule_exception list \<Rightarrow> clock store" where
  "example_store appts exceptions =
     \<lparr>doctors = [\<lparr>doctor_id = ''d1'', doctor_practiceId = ''p1''\<rparr>],
      services = [''s1''],
      patients = [''pt1''],
      appointments = appts,
      schedules = [\<lparr>sched_id = ''sch1'', sched_practiceId = ''p1'', sched_doctorId = ''d1'',
                    sched_date = 20000, sched_startTime = (9, 0), sched_endTime = (17, 0)\<rparr>],
      doctorSchedules = [\<lparr>ds_doctorId = ''d1'', ds_dayOfWeek = 5, ds_startTime = (9, 0),
                          ds_endTime = (17, 0), ds_isAvailable = True,
                          ds_effectiveDate = None, ds_expiryDate = None\<rparr>],
      scheduleExceptions = exceptions\<rparr>"

definition example_appointment :: "string \<Rightarrow> string \<Rightarrow> int \<Rightarrow> int \<Rightarrow> appointment" where
  "example_appointment id' status startTime endTime =
     \<lparr>appt_id = id', appt_patientId = ''pt1'', appt_doctorId = ''d1'', appt_serviceId = ''s1'',
      appt_practiceId = ''p1'', appt_startTime = startTime, appt_endTime = endTime,
      appt_reason = None, appt_notes = None, appt_status = status,
      appt_bookingSource = ''ONLINE'', appt_cancellationReason = None\<rparr>"

definition example_request :: "int \<Rightarrow> int \<Rightarrow> appointment_data" where
  "example_request startTime endTime =
     \<lparr>ad_patientId = ''pt1'', ad_doctorId = ''d1'', ad_serviceId = ''s1'',
      ad_startTime = Some startTime, ad_endTime = endTime,
      ad_reason = None, ad_notes = None, ad_status = None, ad_bookingSource = None\<rparr>"

definition example_schedule_store :: "appointment list \<Rightarrow> int store" where
  \<comment> \<open>the same practice as the schedule controller reads it: the entry spans 09:00 to 17:00\<close>
  "example_schedule_store appts =
     \<lparr>doctors = [\<lparr>doctor_id = ''d1'', doctor_practiceId = ''p1''\<rparr>],
      services = [''s1''],
      patients = [''pt1''],
      appointments = appts,
      schedules = [\<lparr>sched_id = ''sch1'', sched_practiceId = ''p1'', sched_doctorId = ''d1'',
                    sched_date = 20000, sched_startTime = 1728032400000,
                    sched_endTime = 1728061200000\<rparr>],
      doctorSchedules = [],
      scheduleExceptions = []\<rparr>"

definition example_move :: "int \<Rightarrow> int \<Rightarrow> appointment_update" where
  \<comment> \<open>new times, written as \<open>toISOString\<close> writes them\<close>
  "example_move startTime endTime =
     \<lparr>au_patientId = None, au_doctorId = None, au_serviceId = None,
      au_startTime = Some \<lparr>iso_instant = startTime, iso_canonical = True\<rparr>,
      au_endTime = Some \<lparr>iso_instant = endTime, iso_canonical = True\<rparr>,
      au_reason = None, au_notes = None, au_status = None\<rparr>"


definition example_now :: int where
  "example_now = 1727000000000"

section \<open>Properties of the time-range algebra\<close>

definition ends_before :: "time_range \<Rightarrow> time_range \<Rightarrow> bool" where
  "ends_before a b = (range_end a \<le> range_start b)"

lemma covered_Nil: "covered [] = {}"
  by (simp add: covered_def)

lemma covered_Cons: "covered (r # rs) = range_set r \<union> covered rs"
  by (simp add: covered_def)

lemma covered_append: "covered (xs @ ys) = covered xs \<union> covered ys"
  by (auto simp: covered_def)

lemma covered_removeFromRange:
  "covered (removeFromRange s e r) = range_set r - {s..<e}"
  by (auto simp: removeFromRange_def covered_def range_set_def)

lemma covered_removeTimeRange:
  "covered (removeTimeRange R s e) = covered R - {s..<e}"
  by (induction R) (auto simp: covered_Nil covered_Cons covered_append covered_removeFromRange)

text \<open>
  For ranges with start before end, sorted and pairwise disjoint is the same as:
  each range ends at or before the start of every later one.
\<close>

lemma pairwise_disjoint_chain:
  "list_all proper_range rs \<Longrightarrow> sorted_by_start rs \<Longrightarrow> pairwise_disjoint rs \<Longrightarrow> sorted_wrt ends_before rs"
proof (induction rs)
  case Nil
  then show ?case by simp
next
  case (Cons r rs)
  have "ends_before r q" if "q \<in> set rs" for q
  proof -
    from Cons.prems that have "range_start r \<le> range_start q" "proper_range q" "\<not> ranges_overlap r q"
      by (auto simp: sorted_by_start_def list_all_iff)
    then show ?thesis
      by (auto simp: ends_before_def ranges_overlap_def proper_range_def)
  qed
  moreover from Cons have "sorted_wrt ends_before rs"
    by (simp add: sorted_by_start_def)
  ultimately show ?case by simp
qed

lemma chain_pairwise_disjoint:
  "list_all proper_range rs \<Longrightarrow> sorted_wrt ends_before rs \<Longrightarrow> sorted_by_start rs \<and> pairwise_disjoint rs"
proof (induction rs)
  case Nil
  then show ?case by (simp add: sorted_by_start_def)
next
  case (Cons r rs)
  have a: "range_start r \<le> range_start q \<and> \<not> ranges_overlap r q" if "q \<in> set rs" for q
  proof -
    from Cons.prems that have "ends_before r q" "proper_range r" by auto
    then show ?thesis
      by (auto simp: ends_before_def ranges_overlap_def proper_range_def)
  qed
  from Cons have "sorted_by_start rs \<and> pairwise_disjoint rs" by simp
  with a show ?case
    by (auto simp: sorted_by_start_def list_all_iff)
qed

lemma disjoint_sorted_iff:
  "disjoint_sorted rs \<longleftrightarrow> list_all proper_range rs \<and> sorted_wrt ends_before rs"
  unfolding disjoint_sorted_def
  using pairwise_disjoint_chain chain_pairwise_disjoint by blast

lemma removeFromRange_proper:
  "proper_range r \<Longrightarrow> q \<in> set (removeFromRange s e r) \<Longrightarrow> proper_range q"
  by (auto simp: removeFromRange_def proper_range_def split: if_splits)

lemma removeFromRange_within:
  "q \<in> set (removeFromRange s e r) \<Longrightarrow> range_start r \<le> range_start q \<and> range_end q \<le> range_end r"
  by (auto simp: removeFromRange_def split: if_splits)

lemma removeFromRange_chain:
  "s \<le> e \<Longrightarrow> sorted_wrt ends_before (removeFromRange s e r)"
  by (auto simp: removeFromRange_def ends_before_def)

lemma removeTimeRange_within:
  "q \<in> set (removeTimeRange R s e) \<Longrightarrow>
   \<exists>r \<in> set R. range_start r \<le> range_start q \<and> range_end q \<le> range_end r"
  by (induction R) (auto dest: removeFromRange_within)

lemma removeTimeRange_proper:
  "list_all proper_range R \<Longrightarrow> list_all proper_range (removeTimeRange R s e)"
  by (induction R) (auto simp: list_all_iff dest: removeFromRange_proper)

lemma removeTimeRange_chain:
  "s \<le> e \<Longrightarrow> list_all proper_range R \<Longrightarrow> sorted_wrt ends_before R \<Longrightarrow>
   sorted_wrt ends_before (removeTimeRange R s e)"
proof (induction R)
  case Nil
  then show ?case by simp
next
  case (Cons r R)
  have "ends_before p q"
    if "p \<in> set (removeFromRange s e r)" "q \<in> set (removeTimeRange R s e)" for p q
  proof -
    from that(2) obtain r' where r': "r' \<in> set R" "range_start r' \<le> range_start q"
      using removeTimeRange_within by blast
    from that(1) have "range_end p \<le> range_end r"
      using removeFromRange_within by blast
    moreover from Cons.prems r' have "ends_before r r'" by simp
    ultimately show ?thesis using r' by (simp add: ends_before_def)
  qed
  with Cons show ?case
    by (simp add: sorted_wrt_append removeFromRange_chain)
qed

lemma removeTimeRange_disjoint_sorted:
  "s \<le> e \<Longrightarrow> disjoint_sorted R \<Longrightarrow> disjoint_sorted (removeTimeRange R s e)"
  by (simp add: disjoint_sorted_iff removeTimeRange_proper removeTimeRange_chain)

lemma removeTimeRange_single_cases:
  assumes "proper_range r" and "s \<le> e"
  shows "(range_end r \<le> s \<or> e \<le> range_start r \<longrightarrow> removeTimeRange [r] s e = [r])
       \<and> (s \<le> range_start r \<and> range_end r \<le> e \<longrightarrow> removeTimeRange [r] s e = [])
       \<and> (range_start r < s \<and> e < range_end r \<longrightarrow>
            removeTimeRange [r] s e =
              [\<lparr>range_start = range_start r, range_end = s\<rparr>, \<lparr>range_start = e, range_end = range_end r\<rparr>])
       \<and> (s \<le> range_start r \<and> range_start r < e \<and> e < range_end r \<longrightarrow>
            removeTimeRange [r] s e = [\<lparr>range_start = e, range_end = range_end r\<rparr>])
       \<and> (range_start r < s \<and> s < range_end r \<and> range_end r \<le> e \<longrightarrow>
            removeTimeRange [r] s e = [\<lparr>range_start = range_start r, range_end = s\<rparr>])"
  using assms by (simp add: removeFromRange_def proper_range_def)

text \<open>
  C3. Removing a range \<open>[removeStart, removeEnd)\<close> with
  \<open>removeStart \<le> removeEnd\<close> from a list of pairwise-disjoint, sorted ranges,
  each with start before end, gives again such a list. It covers exactly the
  input minus the removed range: together with the removed part of the input it
  gives back the input, and nothing of the removed range is left. A range
  without overlap is kept unchanged, a range the removal contains is dropped, a
  removal strictly inside splits the range in two, a removal over the start
  truncates from the left, a removal over the end truncates from the right.
\<close>

theorem removeTimeRange_subtraction:
  assumes "disjoint_sorted R" and "removeStart \<le> removeEnd"
  shows "disjoint_sorted (removeTimeRange R removeStart removeEnd)
       \<and> covered (removeTimeRange R removeStart removeEnd) \<union> (covered R \<inter> {removeStart..<removeEnd})
           = covered R
       \<and> covered (removeTimeRange R removeStart removeEnd) \<inter> {removeStart..<removeEnd} = {}
       \<and> (\<forall>r. proper_range r \<longrightarrow>
            (range_end r \<le> removeStart \<or> removeEnd \<le> range_start r \<longrightarrow>
               removeTimeRange [r] removeStart removeEnd = [r])
          \<and> (removeStart \<le> range_start r \<and> range_end r \<le> removeEnd \<longrightarrow>
               removeTimeRange [r] removeStart removeEnd = [])
          \<and> (range_start r < removeStart \<and> removeEnd < range_end r \<longrightarrow>
               removeTimeRange [r] removeStart removeEnd =
                 [\<lparr>range_start = range_start r, range_end = removeStart\<rparr>,
                  \<lparr>range_start = removeEnd, range_end = range_end r\<rparr>])
          \<and> (removeStart \<le> range_start r \<and> range_start r < removeEnd \<and> removeEnd < range_end r \<longrightarrow>
               removeTimeRange [r] removeStart removeEnd = [\<lparr>range_start = removeEnd, range_end = range_end r\<rparr>])
          \<and> (range_start r < removeStart \<and> removeStart < range_end r \<and> range_end r \<le> removeEnd \<longrightarrow>
               removeTimeRange [r] removeStart removeEnd = [\<lparr>range_start = range_start r, range_end = removeStart\<rparr>]))"
proof -
  have "disjoint_sorted (removeTimeRange R removeStart removeEnd)"
    using assms by (rule removeTimeRange_disjoint_sorted [rotated])
  moreover have "covered (removeTimeRange R removeStart removeEnd) \<union> (covered R \<inter> {removeStart..<removeEnd})
      = covered R"
    unfolding covered_removeTimeRange by blast
  moreover have "covered (removeTimeRange R removeStart removeEnd) \<inter> {removeStart..<removeEnd} = {}"
    unfolding covered_removeTimeRange by blast
  ultimately show ?thesis
    using removeTimeRange_single_cases [OF _ assms(2)] by blast
qed

theorem removeTimeRange_subtraction_witness:
  "disjoint_sorted [\<lparr>range_start = 0, range_end = 10\<rparr>, \<lparr>range_start = 20, range_end = 30\<rparr>]
   \<and> (5::int) \<le> 25
   \<and> removeTimeRange [\<lparr>range_start = 0, range_end = 10\<rparr>, \<lparr>range_start = 20, range_end = 30\<rparr>] 5 25
       = [\<lparr>range_start = 0, range_end = 5\<rparr>, \<lparr>range_start = 25, range_end = 30\<rparr>]
   \<and> disjoint_sorted (removeTimeRange [\<lparr>range_start = 0, range_end = 10\<rparr>, \<lparr>range_start = 20, range_end = 30\<rparr>] 5 25)
   \<and> proper_range \<lparr>range_start = 0, range_end = 10\<rparr>
   \<and> removeTimeRange [\<lparr>range_start = 0, range_end = 10\<rparr>] 5 25 = [\<lparr>range_start = 0, range_end = 5\<rparr>]"
proof -
  have h: "disjoint_sorted [\<lparr>range_start = 0, range_end = 10\<rparr>, \<lparr>range_start = 20, range_end = 30\<rparr>]"
    by (simp add: disjoint_sorted_def proper_range_def sorted_by_start_def ranges_overlap_def)
  have k: "(5::int) \<le> 25" by simp
  have p: "proper_range \<lparr>range_start = 0, range_end = 10\<rparr>"
    by (simp add: proper_range_def)
  from removeTimeRange_subtraction [OF h k] p h show ?thesis
    by (simp add: removeFromRange_def)
qed

lemma removeFromRange_commute:
  "xs \<le> xe \<Longrightarrow> ys \<le> ye \<Longrightarrow>
   removeTimeRange (removeFromRange xs xe r) ys ye = removeTimeRange (removeFromRange ys ye r) xs xe"
  by (cases r) (simp add: removeFromRange_def)

lemma removeTimeRange_append:
  "removeTimeRange (A @ B) s e = removeTimeRange A s e @ removeTimeRange B s e"
  by (induction A) simp_all

lemma removeTimeRange_commute:
  "xs \<le> xe \<Longrightarrow> ys \<le> ye \<Longrightarrow>
   removeTimeRange (removeTimeRange R xs xe) ys ye = removeTimeRange (removeTimeRange R ys ye) xs xe"
  by (induction R) (simp_all add: removeTimeRange_append removeFromRange_commute)

lemma removeTimeRanges_removeTimeRange:
  "s \<le> e \<Longrightarrow> list_all removal_ok xs \<Longrightarrow>
   removeTimeRanges (removeTimeRange R s e) xs = removeTimeRange (removeTimeRanges R xs) s e"
proof (induction xs arbitrary: R)
  case Nil
  then show ?case by simp
next
  case (Cons x xs)
  obtain a b where x: "x = (a, b)" by (cases x)
  with Cons.prems have ab: "a \<le> b" by (simp add: removal_ok_def)
  have "removeTimeRanges (removeTimeRange R s e) (x # xs)
      = removeTimeRanges (removeTimeRange (removeTimeRange R a b) s e) xs"
    using x ab Cons.prems(1) by (simp add: removeTimeRange_commute)
  also have "\<dots> = removeTimeRange (removeTimeRanges (removeTimeRange R a b) xs) s e"
    using Cons by simp
  finally show ?case using x by simp
qed

lemma removeTimeRanges_commute:
  "list_all removal_ok xs \<Longrightarrow> list_all removal_ok ys \<Longrightarrow>
   removeTimeRanges (removeTimeRanges R xs) ys = removeTimeRanges (removeTimeRanges R ys) xs"
proof (induction xs arbitrary: R)
  case Nil
  then show ?case by simp
next
  case (Cons x xs)
  obtain a b where x: "x = (a, b)" by (cases x)
  with Cons.prems have ab: "a \<le> b" by (simp add: removal_ok_def)
  have "removeTimeRanges (removeTimeRanges R (x # xs)) ys
      = removeTimeRanges (removeTimeRanges (removeTimeRange R a b) ys) xs"
    using x Cons by simp
  also have "\<dots> = removeTimeRanges (removeTimeRange (removeTimeRanges R ys) a b) xs"
    using ab Cons.prems by (simp add: removeTimeRanges_removeTimeRange)
  finally show ?case using x by simp
qed

text \<open>
  C7. Subtraction is order-independent. For every range list \<open>R\<close>, so for
  every pairwise-disjoint sorted one, and removal ranges \<open>X\<close> and \<open>Y\<close> (start
  at or before end), removing \<open>X\<close> then \<open>Y\<close> gives the same list as
  removing \<open>Y\<close> then \<open>X\<close>. Hence removing a day's partial exceptions and then
  its appointments, as \<open>_generateAvailabilitySlots\<close> does for a schedule period,
  gives the same free ranges as removing the appointments first.
\<close>

theorem removeTimeRange_order_independent:
  assumes "xStart \<le> xEnd" and "yStart \<le> yEnd"
    and "list_all removal_ok partialExceptions" and "list_all removal_ok dayAppointments"
  shows "removeTimeRange (removeTimeRange R xStart xEnd) yStart yEnd
           = removeTimeRange (removeTimeRange R yStart yEnd) xStart xEnd
       \<and> removeTimeRanges (removeTimeRanges R partialExceptions) dayAppointments
           = removeTimeRanges (removeTimeRanges R dayAppointments) partialExceptions
       \<and> availableRangesOfPeriod scheduleStart scheduleEnd partialExceptions dayAppointments
           = availableRangesOfPeriod_appointments_first scheduleStart scheduleEnd
               partialExceptions dayAppointments"
  using assms
  by (simp add: removeTimeRange_commute removeTimeRanges_commute
      availableRangesOfPeriod_def availableRangesOfPeriod_appointments_first_def)

theorem removeTimeRange_order_independent_witness:
  "(12::int) \<le> 13 \<and> (10::int) \<le> 11
   \<and> list_all removal_ok [(12, 13::int)] \<and> list_all removal_ok [(10, 11::int), (16, 17)]
   \<and> removeTimeRange (removeTimeRange [\<lparr>range_start = 9, range_end = 17\<rparr>] 12 13) 10 11
       = [\<lparr>range_start = 9, range_end = 10\<rparr>, \<lparr>range_start = 11, range_end = 12\<rparr>,
          \<lparr>range_start = 13, range_end = 17\<rparr>]
   \<and> removeTimeRange (removeTimeRange [\<lparr>range_start = 9, range_end = 17\<rparr>] 10 11) 12 13
       = [\<lparr>range_start = 9, range_end = 10\<rparr>, \<lparr>range_start = 11, range_end = 12\<rparr>,
          \<lparr>range_start = 13, range_end = 17\<rparr>]
   \<and> availableRangesOfPeriod_appointments_first 9 17 [(12, 13)] [(10, 11), (16, 17)]
       = [\<lparr>range_start = 9, range_end = 10\<rparr>, \<lparr>range_start = 11, range_end = 12\<rparr>,
          \<lparr>range_start = 13, range_end = 16\<rparr>]"
proof -
  have h: "(12::int) \<le> 13" "(10::int) \<le> 11"
    "list_all removal_ok [(12, 13::int)]" "list_all removal_ok [(10, 11::int), (16, 17)]"
    by (simp_all add: removal_ok_def)
  have v: "availableRangesOfPeriod 9 17 [(12, 13)] [(10, 11), (16, 17)]
      = [\<lparr>range_start = 9, range_end = 10\<rparr>, \<lparr>range_start = 11, range_end = 12\<rparr>,
         \<lparr>range_start = 13, range_end = 16\<rparr>]"
    by (simp add: availableRangesOfPeriod_def removeFromRange_def)
  from removeTimeRange_order_independent
         [OF h, of "[\<lparr>range_start = 9, range_end = 17\<rparr>]" 9 17]
  show ?thesis
    using h v by (simp add: removeFromRange_def)
qed








section \<open>Properties of the appointment service\<close>

lemmas ex_defs = example_store_def example_appointment_def example_request_def example_now_def
  example_schedule_store_def example_move_def
lemmas create_defs = createAppointment_def createAppointment_checks_def createAppointment_insert_def
  findConflictingAppointment_def conflicts_with_def isoDate_def parseDateTime_def Let_def
lemmas avail_defs = isTimeSlotAvailable_def overlappingAppointment_def getDay_def toTimeString_def
  setHours_def clock_lte_def

lemma conflicts_with_iff:
  "s < e \<Longrightarrow> appt_startTime a < appt_endTime a \<Longrightarrow>
   conflicts_with s e a \<longleftrightarrow> appt_startTime a < e \<and> s < appt_endTime a"
  by (auto simp: conflicts_with_def)

lemma find_doctor_Some:
  "d \<in> doctor_id ` set ds \<Longrightarrow> \<exists>x. find (\<lambda>y. doctor_id y = d) ds = Some x"
  by (cases "find (\<lambda>y. doctor_id y = d) ds") (auto simp: find_None_iff)

text \<open>
  What the conflict query of \<open>createAppointment\<close> decides. For a request that
  passes the checks made before the query (required fields, start before end,
  start not in the past, doctor, service and patient found) and a store whose
  appointments have start before end, the call is rejected with the conflict
  error exactly when some appointment of the same doctor whose status is not
  \<open>CANCELLED\<close> overlaps the requested interval under half-open semantics: the
  two conflict unless one ends at or before the other begins. The status test
  is the one of the source; it lets an appointment marked \<open>NO_SHOW\<close> block.
\<close>

lemma createAppointment_rejects_iff_overlap:
  assumes "ad_startTime appointmentData = Some startTime"
    and "ad_patientId appointmentData \<noteq> []" and "ad_doctorId appointmentData \<noteq> []"
    and "ad_serviceId appointmentData \<noteq> []"
    and "startTime < ad_endTime appointmentData" and "now \<le> startTime"
    and "ad_doctorId appointmentData \<in> doctor_id ` set (doctors st)"
    and "ad_serviceId appointmentData \<in> set (services st)"
    and "ad_patientId appointmentData \<in> set (patients st)"
    and "\<forall>a \<in> set (appointments st). appt_startTime a < appt_endTime a"
  shows "(fst (createAppointment now newId st appointmentData)
            = Inl (BadRequestError ''Doctor is not available at this time'')
          \<longleftrightarrow> (\<exists>a \<in> set (appointments st).
                 appt_doctorId a = ad_doctorId appointmentData \<and> appt_status a \<noteq> ''CANCELLED''
                 \<and> appt_startTime a < ad_endTime appointmentData \<and> startTime < appt_endTime a))
       \<and> (fst (createAppointment now newId st appointmentData)
            = Inl (BadRequestError ''Doctor is not available at this time'')
          \<longrightarrow> snd (createAppointment now newId st appointmentData) = st)"
proof -
  let ?conflict = "findConflictingAppointment (appointments st) (ad_doctorId appointmentData)
                           startTime (ad_endTime appointmentData)"
  have iff: "?conflict \<noteq> None \<longleftrightarrow> (\<exists>a \<in> set (appointments st).
                 appt_doctorId a = ad_doctorId appointmentData \<and> appt_status a \<noteq> ''CANCELLED''
                 \<and> appt_startTime a < ad_endTime appointmentData \<and> startTime < appt_endTime a)"
    using assms(5,10) by (auto simp: findConflictingAppointment_def find_None_iff conflicts_with_iff)
  obtain doctor where d: "find (\<lambda>d. doctor_id d = ad_doctorId appointmentData) (doctors st) = Some doctor"
    using find_doctor_Some [OF assms(7)] by blast
  have res: "fst (createAppointment now newId st appointmentData)
            = Inl (BadRequestError ''Doctor is not available at this time'') \<longleftrightarrow> ?conflict \<noteq> None"
    using assms(1-6,8,9) d
    by (auto simp: createAppointment_def createAppointment_checks_def createAppointment_insert_def Let_def
        split: option.splits)
  have "snd (createAppointment now newId st appointmentData) = st"
    if "fst (createAppointment now newId st appointmentData)
            = Inl (BadRequestError ''Doctor is not available at this time'')"
    using that by (auto simp: createAppointment_def split: sum.splits prod.splits)
  with res iff show ?thesis by blast
qed

text \<open>
  C2, at concrete inputs. With a confirmed appointment from 10:00 to 10:30, a
  request for 10:15 to 10:45 is rejected with the conflict error and a request
  for 10:30 to 11:00, back to back, is booked: the overlap test is half-open.
  With the stored appointment marked \<open>NO_SHOW\<close> instead, no blocking
  appointment (status neither \<open>CANCELLED\<close> nor \<open>NO_SHOW\<close>) overlaps 10:15
  to 10:45, yet the request is rejected with the conflict error.
\<close>

theorem createAppointment_conflict_without_blocking_overlap:
  "createAppointment example_now ''a2''
       (example_store [example_appointment ''a1'' ''NO_SHOW'' 1728036000000 1728037800000] [])
       (example_request 1728036900000 1728038700000)
     = (Inl (BadRequestError ''Doctor is not available at this time''),
        example_store [example_appointment ''a1'' ''NO_SHOW'' 1728036000000 1728037800000] [])
   \<and> \<not> list_ex (\<lambda>a. appt_doctorId a = ''d1''
                      \<and> appt_status a \<noteq> ''CANCELLED'' \<and> appt_status a \<noteq> ''NO_SHOW''
                      \<and> appt_startTime a < 1728038700000 \<and> 1728036900000 < appt_endTime a)
         (appointments
            (example_store [example_appointment ''a1'' ''NO_SHOW'' 1728036000000 1728037800000] []))
   \<and> fst (createAppointment example_now ''a2''
          (example_store [example_appointment ''a1'' ''CONFIRMED'' 1728036000000 1728037800000] [])
          (example_request 1728036900000 1728038700000))
     = Inl (BadRequestError ''Doctor is not available at this time'')
   \<and> fst (createAppointment example_now ''a2''
          (example_store [example_appointment ''a1'' ''CONFIRMED'' 1728036000000 1728037800000] [])
          (example_request 1728037800000 1728039600000))
     = Inr (example_appointment ''a2'' ''PENDING'' 1728037800000 1728039600000)"
  by (simp add: ex_defs create_defs)

text \<open>
  C4, at a concrete input. The conflict query of \<open>createAppointment\<close> excludes
  only the status \<open>CANCELLED\<close>: an appointment marked \<open>NO_SHOW\<close> blocks a new
  booking of its interval, while \<open>isTimeSlotAvailable\<close> of the schedule
  service, which excludes \<open>CANCELLED\<close> and \<open>NO_SHOW\<close>, reports the same slot
  as available.
\<close>

theorem createAppointment_no_show_blocks:
  "createAppointment example_now ''a2''
       (example_store [example_appointment ''a1'' ''NO_SHOW'' 1728036000000 1728037800000] [])
       (example_request 1728036000000 1728037800000)
     = (Inl (BadRequestError ''Doctor is not available at this time''),
        example_store [example_appointment ''a1'' ''NO_SHOW'' 1728036000000 1728037800000] [])
   \<and> isTimeSlotAvailable
       (example_store [example_appointment ''a1'' ''NO_SHOW'' 1728036000000 1728037800000] [])
       ''d1'' 1728036000000 1728037800000 = Inr True"
  by (simp add: ex_defs create_defs avail_defs)

text \<open>
  C5, at a concrete input. \<open>createAppointment\<close> never reads the schedule
  exceptions: with a full-day exception on the date, and with a partial
  exception from 10:00 to 11:00, a booking from 10:00 to 10:30 is created, while
  \<open>isTimeSlotAvailable\<close> reports the slot as unavailable in both stores.
\<close>

theorem createAppointment_ignores_exceptions:
  "createAppointment example_now ''a1''
       (example_store []
          [\<lparr>ex_doctorId = ''d1'', ex_date = 1728000000000, ex_isFullDay = True,
            ex_startTime = None, ex_endTime = None\<rparr>])
       (example_request 1728036000000 1728037800000)
     = (Inr (example_appointment ''a1'' ''PENDING'' 1728036000000 1728037800000),
        example_store [example_appointment ''a1'' ''PENDING'' 1728036000000 1728037800000]
          [\<lparr>ex_doctorId = ''d1'', ex_date = 1728000000000, ex_isFullDay = True,
            ex_startTime = None, ex_endTime = None\<rparr>])
   \<and> isTimeSlotAvailable
       (example_store []
          [\<lparr>ex_doctorId = ''d1'', ex_date = 1728000000000, ex_isFullDay = True,
            ex_startTime = None, ex_endTime = None\<rparr>])
       ''d1'' 1728036000000 1728037800000 = Inr False
   \<and> createAppointment example_now ''a1''
       (example_store []
          [\<lparr>ex_doctorId = ''d1'', ex_date = 1728000000000, ex_isFullDay = False,
            ex_startTime = Some (10, 0), ex_endTime = Some (11, 0)\<rparr>])
       (example_request 1728036000000 1728037800000)
     = (Inr (example_appointment ''a1'' ''PENDING'' 1728036000000 1728037800000),
        example_store [example_appointment ''a1'' ''PENDING'' 1728036000000 1728037800000]
          [\<lparr>ex_doctorId = ''d1'', ex_date = 1728000000000, ex_isFullDay = False,
            ex_startTime = Some (10, 0), ex_endTime = Some (11, 0)\<rparr>])
   \<and> isTimeSlotAvailable
       (example_store []
          [\<lparr>ex_doctorId = ''d1'', ex_date = 1728000000000, ex_isFullDay = False,
            ex_startTime = Some (10, 0), ex_endTime = Some (11, 0)\<rparr>])
       ''d1'' 1728036000000 1728037800000 = Inr False"
  by (simp add: ex_defs create_defs avail_defs)

text \<open>
  C1, at a concrete input. Two calls for the same doctor, 10:00 to 10:30 and
  10:15 to 10:45, on a store without appointments. When both calls make their
  reads before either inserts, both succeed and the store holds two pending
  appointments of the doctor that overlap. When the first call finishes before
  the second starts, the second is rejected.
\<close>

theorem createAppointment_interleaved_double_booking:
  "run_tasks example_now [0, 1, 0, 1]
       (example_store [] [],
        [Calling (example_request 1728036000000 1728037800000) ''a1'',
         Calling (example_request 1728036900000 1728038700000) ''a2''])
     = (example_store [example_appointment ''a1'' ''PENDING'' 1728036000000 1728037800000,
                       example_appointment ''a2'' ''PENDING'' 1728036900000 1728038700000] [],
        [Returned (Inr (example_appointment ''a1'' ''PENDING'' 1728036000000 1728037800000)),
         Returned (Inr (example_appointment ''a2'' ''PENDING'' 1728036900000 1728038700000))])
   \<and> double_booked [example_appointment ''a1'' ''PENDING'' 1728036000000 1728037800000,
                     example_appointment ''a2'' ''PENDING'' 1728036900000 1728038700000]
   \<and> run_tasks example_now [0, 0, 1, 1]
       (example_store [] [],
        [Calling (example_request 1728036000000 1728037800000) ''a1'',
         Calling (example_request 1728036900000 1728038700000) ''a2''])
     = (example_store [example_appointment ''a1'' ''PENDING'' 1728036000000 1728037800000] [],
        [Returned (Inr (example_appointment ''a1'' ''PENDING'' 1728036000000 1728037800000)),
         Returned (Inl (BadRequestError ''Doctor is not available at this time''))])"
  by (simp add: ex_defs create_defs overlapping_pair_def)

lemma find_after_cancel:
  "find (\<lambda>a. appt_doctorId a = d \<and> appt_status a \<noteq> ''CANCELLED'' \<and> Q a)
     (map (\<lambda>a. if appt_id a = i then cancellation reason a else a) xs)
   = find (\<lambda>a. appt_doctorId a = d \<and> appt_status a \<noteq> ''CANCELLED'' \<and> Q a)
       (filter (\<lambda>a. appt_id a \<noteq> i) xs)"
  by (induction xs) (simp_all add: cancellation_def)

lemma cancellation_fields:
  "appt_status (cancellation reason a) = ''CANCELLED''"
  "appt_id (cancellation reason a) = appt_id a"
  "appt_doctorId (cancellation reason a) = appt_doctorId a"
  by (simp_all add: cancellation_def)

lemma cancelled_rows:
  "\<forall>b \<in> set (map (\<lambda>a. if appt_id a = i then cancellation reason a else a) xs).
     appt_id b = i \<longrightarrow> appt_status b = ''CANCELLED''"
proof (intro ballI impI)
  fix b
  assume "b \<in> set (map (\<lambda>a. if appt_id a = i then cancellation reason a else a) xs)"
    and i: "appt_id b = i"
  then obtain a where b: "b = (if appt_id a = i then cancellation reason a else a)"
    by (auto simp only: set_map image_iff)
  show "appt_status b = ''CANCELLED''"
  proof (cases "appt_id a = i")
    case True
    with b show ?thesis by (simp add: cancellation_fields)
  next
    case False
    with b have "b = a" by simp
    with i False show ?thesis by simp
  qed
qed

lemma find_cancelled_row:
  "find (\<lambda>a. appt_id a = i) xs = Some a \<Longrightarrow>
   find (\<lambda>a. appt_id a = i) (map (\<lambda>a. if appt_id a = i then cancellation reason a else a) xs)
     = Some (cancellation reason a)"
proof (induction xs)
  case Nil
  then show ?case by simp
next
  case (Cons x xs)
  show ?case
  proof (cases "appt_id x = i")
    case True
    with Cons.prems show ?thesis by (simp add: cancellation_fields)
  next
    case False
    with Cons show ?thesis by simp
  qed
qed

lemma appointments_update_row:
  "appointments (update_appointment_row i f st)
     = map (\<lambda>a. if appt_id a = i then f a else a) (appointments st)"
  by (simp add: update_appointment_row_def)

lemma cancelAppointment_success:
  assumes "fst (cancelAppointment now st i reason) = Inr cancelled"
  shows "\<exists>a. find (\<lambda>a. appt_id a = i) (appointments st) = Some a
            \<and> cancelled = cancellation reason a
            \<and> snd (cancelAppointment now st i reason) = update_appointment_row i (cancellation reason) st"
proof (cases "find (\<lambda>a. appt_id a = i) (appointments st)")
  case None
  with assms show ?thesis by (simp add: cancelAppointment_def getAppointmentById_def)
next
  case (Some a)
  show ?thesis
  proof (cases "appt_status a = ''CANCELLED''")
    case True
    with Some assms show ?thesis by (simp add: cancelAppointment_def getAppointmentById_def)
  next
    case False
    show ?thesis
    proof (cases "appt_startTime a < now")
      case True
      with Some False assms show ?thesis by (simp add: cancelAppointment_def getAppointmentById_def)
    next
      case past: False
      with Some False assms show ?thesis by (simp add: cancelAppointment_def getAppointmentById_def)
    qed
  qed
qed


lemma checks_depend_on_conflict_query:
  assumes "doctors st1 = doctors st2" "services st1 = services st2" "patients st1 = patients st2"
    "schedules st1 = schedules st2"
    "\<And>d s e. findConflictingAppointment (appointments st1) d s e
               = findConflictingAppointment (appointments st2) d s e"
  shows "createAppointment_checks now st1 appointmentData = createAppointment_checks now st2 appointmentData"
  unfolding createAppointment_checks_def assms(1-4) assms(5) ..

lemma checks_after_cancel:
  "createAppointment_checks now' (update_appointment_row i (cancellation reason) st) appointmentData
   = createAppointment_checks now' (st\<lparr>appointments := filter (\<lambda>a. appt_id a \<noteq> i) (appointments st)\<rparr>)
       appointmentData"
proof (rule checks_depend_on_conflict_query)
  show "doctors (update_appointment_row i (cancellation reason) st)
      = doctors (st\<lparr>appointments := filter (\<lambda>a. appt_id a \<noteq> i) (appointments st)\<rparr>)"
    by (simp add: update_appointment_row_def)
  show "services (update_appointment_row i (cancellation reason) st)
      = services (st\<lparr>appointments := filter (\<lambda>a. appt_id a \<noteq> i) (appointments st)\<rparr>)"
    by (simp add: update_appointment_row_def)
  show "patients (update_appointment_row i (cancellation reason) st)
      = patients (st\<lparr>appointments := filter (\<lambda>a. appt_id a \<noteq> i) (appointments st)\<rparr>)"
    by (simp add: update_appointment_row_def)
  show "schedules (update_appointment_row i (cancellation reason) st)
      = schedules (st\<lparr>appointments := filter (\<lambda>a. appt_id a \<noteq> i) (appointments st)\<rparr>)"
    by (simp add: update_appointment_row_def)
  show "findConflictingAppointment (appointments (update_appointment_row i (cancellation reason) st)) d s e
      = findConflictingAppointment
          (appointments (st\<lparr>appointments := filter (\<lambda>a. appt_id a \<noteq> i) (appointments st)\<rparr>)) d s e"
    for d s e
    unfolding appointments_update_row findConflictingAppointment_def
    by (simp add: find_after_cancel)
qed

text \<open>
  C9. Cancelling an appointment whose status is already \<open>CANCELLED\<close> is
  rejected with the error "Appointment is already cancelled" and the store
  stays as it was. A successful cancellation returns the stored appointment
  with its status set to \<open>CANCELLED\<close> and the cancellation reason written,
  and the new store is the old one with exactly that change on the row: the
  row is still stored, under its identifier, with status \<open>CANCELLED\<close>.
  Every stored row with that identifier has status \<open>CANCELLED\<close>, and
  the conflict query of \<open>createAppointment\<close> answers on the new store, for
  every doctor and interval, as it would with the appointment removed, and so
  do all the checks of \<open>createAppointment\<close>: the cancelled interval no longer
  blocks a booking.
\<close>

theorem cancelAppointment_idempotent:
  "(find (\<lambda>a. appt_id a = id') (appointments st) = Some appointment
      \<and> appt_status appointment = ''CANCELLED''
    \<longrightarrow> cancelAppointment now st id' reason
          = (Inl (BadRequestError ''Appointment is already cancelled''), st))
   \<and> (fst (cancelAppointment now st id' reason) = Inr cancelled
    \<longrightarrow> appt_status cancelled = ''CANCELLED''
        \<and> appt_id cancelled = id'
        \<and> (\<exists>original.
              find (\<lambda>a. appt_id a = id') (appointments st) = Some original
              \<and> cancelled =
                  original\<lparr>appt_status := ''CANCELLED'',
                           appt_cancellationReason :=
                             (if truthy reason then reason else Some ''No reason provided'')\<rparr>)
        \<and> snd (cancelAppointment now st id' reason)
            = st\<lparr>appointments :=
                   map (\<lambda>a. if appt_id a = id'
                            then a\<lparr>appt_status := ''CANCELLED'',
                                   appt_cancellationReason :=
                                     (if truthy reason then reason else Some ''No reason provided'')\<rparr>
                            else a)
                       (appointments st)\<rparr>
        \<and> find (\<lambda>a. appt_id a = id') (appointments (snd (cancelAppointment now st id' reason)))
            = Some cancelled
        \<and> (\<forall>a \<in> set (appointments (snd (cancelAppointment now st id' reason))).
              appt_id a = id' \<longrightarrow> appt_status a = ''CANCELLED'')
        \<and> (\<forall>doctorId startTime endTime.
              findConflictingAppointment
                  (appointments (snd (cancelAppointment now st id' reason))) doctorId startTime endTime
                = findConflictingAppointment
                    (filter (\<lambda>a. appt_id a \<noteq> id') (appointments st)) doctorId startTime endTime)
        \<and> (\<forall>now' appointmentData.
              createAppointment_checks now' (snd (cancelAppointment now st id' reason)) appointmentData
                = createAppointment_checks now'
                    (st\<lparr>appointments := filter (\<lambda>a. appt_id a \<noteq> id') (appointments st)\<rparr>)
                    appointmentData))"
proof (intro conjI impI)
  assume "find (\<lambda>a. appt_id a = id') (appointments st) = Some appointment
      \<and> appt_status appointment = ''CANCELLED''"
  then show "cancelAppointment now st id' reason
          = (Inl (BadRequestError ''Appointment is already cancelled''), st)"
    by (simp add: cancelAppointment_def getAppointmentById_def)
next
  assume ok: "fst (cancelAppointment now st id' reason) = Inr cancelled"
  from cancelAppointment_success [OF ok] obtain a
    where a: "find (\<lambda>a. appt_id a = id') (appointments st) = Some a"
      and c: "cancelled = cancellation reason a"
      and s: "snd (cancelAppointment now st id' reason)
                = update_appointment_row id' (cancellation reason) st"
    by blast
  from a have i: "appt_id a = id'" by (auto simp: find_Some_iff)
  from c show "appt_status cancelled = ''CANCELLED''" by (simp add: cancellation_def)
  from c i show "appt_id cancelled = id'" by (simp add: cancellation_def)
  from a c show "\<exists>original.
              find (\<lambda>a. appt_id a = id') (appointments st) = Some original
              \<and> cancelled =
                  original\<lparr>appt_status := ''CANCELLED'',
                           appt_cancellationReason :=
                             (if truthy reason then reason else Some ''No reason provided'')\<rparr>"
    by (simp add: cancellation_def)
  show "snd (cancelAppointment now st id' reason)
            = st\<lparr>appointments :=
                   map (\<lambda>a. if appt_id a = id'
                            then a\<lparr>appt_status := ''CANCELLED'',
                                   appt_cancellationReason :=
                                     (if truthy reason then reason else Some ''No reason provided'')\<rparr>
                            else a)
                       (appointments st)\<rparr>"
    unfolding s by (simp only: update_appointment_row_def cancellation_def)
  show "find (\<lambda>a. appt_id a = id') (appointments (snd (cancelAppointment now st id' reason)))
            = Some cancelled"
    unfolding s appointments_update_row c by (rule find_cancelled_row [OF a])
  show "\<forall>a \<in> set (appointments (snd (cancelAppointment now st id' reason))).
              appt_id a = id' \<longrightarrow> appt_status a = ''CANCELLED''"
    unfolding s appointments_update_row by (rule cancelled_rows)
  show "\<forall>doctorId startTime endTime.
              findConflictingAppointment
                  (appointments (snd (cancelAppointment now st id' reason))) doctorId startTime endTime
                = findConflictingAppointment
                    (filter (\<lambda>a. appt_id a \<noteq> id') (appointments st)) doctorId startTime endTime"
    unfolding s appointments_update_row findConflictingAppointment_def
    by (intro allI) (rule find_after_cancel)
  show "\<forall>now' appointmentData.
              createAppointment_checks now' (snd (cancelAppointment now st id' reason)) appointmentData
                = createAppointment_checks now'
                    (st\<lparr>appointments := filter (\<lambda>a. appt_id a \<noteq> id') (appointments st)\<rparr>)
                    appointmentData"
    unfolding s by (intro allI) (rule checks_after_cancel)
qed

theorem cancelAppointment_idempotent_witness:
  "fst (cancelAppointment example_now
         (example_store [example_appointment ''a1'' ''CONFIRMED'' 1728036000000 1728037800000] [])
         ''a1'' None)
     = Inr ((example_appointment ''a1'' ''CANCELLED'' 1728036000000 1728037800000)
              \<lparr>appt_cancellationReason := Some ''No reason provided''\<rparr>)
   \<and> snd (cancelAppointment example_now
         (example_store [example_appointment ''a1'' ''CONFIRMED'' 1728036000000 1728037800000] [])
         ''a1'' None)
     = example_store [(example_appointment ''a1'' ''CANCELLED'' 1728036000000 1728037800000)
                        \<lparr>appt_cancellationReason := Some ''No reason provided''\<rparr>] []
   \<and> findConflictingAppointment
       (appointments (snd (cancelAppointment example_now
         (example_store [example_appointment ''a1'' ''CONFIRMED'' 1728036000000 1728037800000] [])
         ''a1'' None))) ''d1'' 1728036000000 1728037800000 = None
   \<and> createAppointment_checks example_now
       (snd (cancelAppointment example_now
         (example_store [example_appointment ''a1'' ''CONFIRMED'' 1728036000000 1728037800000] [])
         ''a1'' None))
       (example_request 1728036000000 1728037800000)
     = Inr \<lparr>doctor_id = ''d1'', doctor_practiceId = ''p1''\<rparr>
   \<and> cancelAppointment example_now
         (example_store [example_appointment ''a1'' ''CANCELLED'' 1728036000000 1728037800000] [])
         ''a1'' None
     = (Inl (BadRequestError ''Appointment is already cancelled''),
        example_store [example_appointment ''a1'' ''CANCELLED'' 1728036000000 1728037800000] [])"
proof -
  let ?st = "example_store [example_appointment ''a1'' ''CONFIRMED'' 1728036000000 1728037800000] []"
  let ?st' = "example_store [example_appointment ''a1'' ''CANCELLED'' 1728036000000 1728037800000] []"
  let ?c = "(example_appointment ''a1'' ''CANCELLED'' 1728036000000 1728037800000)
              \<lparr>appt_cancellationReason := Some ''No reason provided''\<rparr>"
  have r: "fst (cancelAppointment example_now ?st ''a1'' None) = Inr ?c"
    by (simp add: ex_defs cancelAppointment_def getAppointmentById_def cancellation_def truthy_def)
  have f: "find (\<lambda>a. appt_id a = ''a1'') (appointments ?st')
      = Some (example_appointment ''a1'' ''CANCELLED'' 1728036000000 1728037800000)
     \<and> appt_status (example_appointment ''a1'' ''CANCELLED'' 1728036000000 1728037800000) = ''CANCELLED''"
    by (simp add: ex_defs)
  note thm1 = cancelAppointment_idempotent
    [of "''a1''" ?st' "example_appointment ''a1'' ''CANCELLED'' 1728036000000 1728037800000"
        example_now None, THEN conjunct1, rule_format, OF f]
  note thm2 = cancelAppointment_idempotent
    [of "''a1''" ?st _ example_now None ?c, THEN conjunct2, rule_format, OF r]
  note store_eq = thm2 [THEN conjunct2, THEN conjunct2, THEN conjunct2, THEN conjunct1]
  note query_eq = thm2 [THEN conjunct2, THEN conjunct2, THEN conjunct2, THEN conjunct2,
                        THEN conjunct2, THEN conjunct2, THEN conjunct1, rule_format]
  note checks_eq = thm2 [THEN conjunct2, THEN conjunct2, THEN conjunct2, THEN conjunct2,
                         THEN conjunct2, THEN conjunct2, THEN conjunct2, rule_format]
  have "findConflictingAppointment
       (appointments (snd (cancelAppointment example_now ?st ''a1'' None))) ''d1'' 1728036000000 1728037800000
     = findConflictingAppointment (filter (\<lambda>a. appt_id a \<noteq> ''a1'') (appointments ?st))
         ''d1'' 1728036000000 1728037800000"
    by (rule query_eq)
  also have "\<dots> = None"
    by (simp add: ex_defs findConflictingAppointment_def)
  finally have q: "findConflictingAppointment
       (appointments (snd (cancelAppointment example_now ?st ''a1'' None))) ''d1'' 1728036000000 1728037800000
     = None" .
  have "createAppointment_checks example_now
       (snd (cancelAppointment example_now ?st ''a1'' None)) (example_request 1728036000000 1728037800000)
     = createAppointment_checks example_now
         (?st\<lparr>appointments := filter (\<lambda>a. appt_id a \<noteq> ''a1'') (appointments ?st)\<rparr>)
         (example_request 1728036000000 1728037800000)"
    by (rule checks_eq)
  also have "\<dots> = Inr \<lparr>doctor_id = ''d1'', doctor_practiceId = ''p1''\<rparr>"
    by (simp add: ex_defs create_defs)
  finally have k: "createAppointment_checks example_now
       (snd (cancelAppointment example_now ?st ''a1'' None)) (example_request 1728036000000 1728037800000)
     = Inr \<lparr>doctor_id = ''d1'', doctor_practiceId = ''p1''\<rparr>" .
  have "snd (cancelAppointment example_now ?st ''a1'' None)
     = ?st\<lparr>appointments :=
             map (\<lambda>a. if appt_id a = ''a1''
                      then a\<lparr>appt_status := ''CANCELLED'',
                             appt_cancellationReason :=
                               (if truthy None then None else Some ''No reason provided'')\<rparr>
                      else a)
                 (appointments ?st)\<rparr>"
    by (rule store_eq)
  also have "\<dots> = example_store [?c] []"
    by (simp add: ex_defs truthy_def)
  finally show ?thesis using r thm1 q k by simp
qed

lemmas update_defs = updateAppointment_def getAppointmentById_def changes_doctor_or_time_def
  findConflictingAppointmentExcept_def target_doctorId_def target_startTime_def target_endTime_def
  updateData_def connect_error_def update_appointment_row_def truthy_def differs_from_stored_def

text \<open>
  C8, at concrete inputs. \<open>updateAppointment\<close> does not re-run the checks of
  \<open>createAppointment\<close>: an appointment is moved to 03:00 to 03:30, outside the
  working hours 09:00 to 17:00, and to an interval in 1970, and both updates
  are applied and stored, while \<open>createAppointment\<close> rejects a booking of
  either interval. What the update does check: the appointment being moved is
  excluded from the conflict query (a move from 10:00 to 10:30 onto 10:15 to
  10:45, over its own old slot, is applied), a move onto the slot of another
  appointment is rejected and leaves the store as it was, and so is a new start
  at or after a new end.
\<close>

theorem updateAppointment_skips_booking_checks:
  "updateAppointment
       (example_store [example_appointment ''a1'' ''PENDING'' 1728036000000 1728037800000] [])
       ''a1'' (example_move 1728010800000 1728012600000)
     = (Inr (example_appointment ''a1'' ''PENDING'' 1728010800000 1728012600000),
        example_store [example_appointment ''a1'' ''PENDING'' 1728010800000 1728012600000] [])
   \<and> fst (createAppointment example_now ''a2'' (example_store [] [])
            (example_request 1728010800000 1728012600000))
     = Inl (BadRequestError ''Appointment time is outside of doctor's working hours'')
   \<and> updateAppointment
       (example_store [example_appointment ''a1'' ''PENDING'' 1728036000000 1728037800000] [])
       ''a1'' (example_move 1000 2000)
     = (Inr (example_appointment ''a1'' ''PENDING'' 1000 2000),
        example_store [example_appointment ''a1'' ''PENDING'' 1000 2000] [])
   \<and> fst (createAppointment example_now ''a2'' (example_store [] []) (example_request 1000 2000))
     = Inl (BadRequestError ''Cannot book appointment in the past'')
   \<and> updateAppointment
       (example_store [example_appointment ''a1'' ''PENDING'' 1728036000000 1728037800000,
                       example_appointment ''a2'' ''CONFIRMED'' 1728039600000 1728041400000] [])
       ''a1'' (example_move 1728036900000 1728038700000)
     = (Inr (example_appointment ''a1'' ''PENDING'' 1728036900000 1728038700000),
        example_store [example_appointment ''a1'' ''PENDING'' 1728036900000 1728038700000,
                       example_appointment ''a2'' ''CONFIRMED'' 1728039600000 1728041400000] [])
   \<and> updateAppointment
       (example_store [example_appointment ''a1'' ''PENDING'' 1728036000000 1728037800000,
                       example_appointment ''a2'' ''CONFIRMED'' 1728039600000 1728041400000] [])
       ''a1'' (example_move 1728040500000 1728042300000)
     = (Inl (BadRequestError ''Doctor is not available at this time''),
        example_store [example_appointment ''a1'' ''PENDING'' 1728036000000 1728037800000,
                       example_appointment ''a2'' ''CONFIRMED'' 1728039600000 1728041400000] [])
   \<and> updateAppointment
       (example_store [example_appointment ''a1'' ''PENDING'' 1728036000000 1728037800000] [])
       ''a1'' (example_move 1728037800000 1728036000000)
     = (Inl (BadRequestError ''End time must be after start time''),
        example_store [example_appointment ''a1'' ''PENDING'' 1728036000000 1728037800000] [])"
  by (simp add: ex_defs update_defs create_defs)

section \<open>Properties of the schedule controller\<close>

text \<open>
  C10, counterexample. A completed appointment inside the span of the
  schedule entry, and a confirmed appointment from 08:30 to 09:30 that overlaps
  the entry's start, are not cancelled and meet the entry's span, yet
  \<open>deleteSchedule\<close> removes the entry in both stores.
\<close>

theorem deleteSchedule_counterexample:
  "deleteSchedule
       (example_schedule_store [example_appointment ''a1'' ''completed'' 1728036000000 1728037800000])
       ''p1'' ''sch1''
     = (Inr ''Schedule deleted successfully'',
        (example_schedule_store [example_appointment ''a1'' ''completed'' 1728036000000 1728037800000])
          \<lparr>schedules := []\<rparr>)
   \<and> deleteSchedule
       (example_schedule_store [example_appointment ''a1'' ''confirmed'' 1728030600000 1728034200000])
       ''p1'' ''sch1''
     = (Inr ''Schedule deleted successfully'',
        (example_schedule_store [example_appointment ''a1'' ''confirmed'' 1728030600000 1728034200000])
          \<lparr>schedules := []\<rparr>)"
  by (simp add: ex_defs deleteSchedule_def schedule_conflicts_def)

text \<open>
  C10, amended. For an entry found under the practice, \<open>deleteSchedule\<close> is
  rejected with "Cannot delete schedule with existing appointments" exactly
  when some appointment of the entry's doctor and practice whose status is
  \<open>scheduled\<close> or \<open>confirmed\<close> lies entirely within the entry (it starts at
  or after the entry's start and ends at or before its end). A rejection leaves
  the store, and so the entry, as it was; otherwise the entry is removed.
\<close>

theorem deleteSchedule_rejects_iff:
  assumes "find (\<lambda>s. sched_id s = scheduleId \<and> sched_practiceId s = practiceId) (schedules st)
             = Some schedule"
  shows "(fst (deleteSchedule st practiceId scheduleId)
              = Inl (BadRequestError ''Cannot delete schedule with existing appointments'')
            \<longleftrightarrow> (\<exists>a \<in> set (appointments st).
                   appt_doctorId a = sched_doctorId schedule \<and> appt_practiceId a = practiceId
                   \<and> sched_startTime schedule \<le> appt_startTime a
                   \<and> appt_endTime a \<le> sched_endTime schedule
                   \<and> (appt_status a = ''scheduled'' \<or> appt_status a = ''confirmed'')))
       \<and> (fst (deleteSchedule st practiceId scheduleId)
              = Inl (BadRequestError ''Cannot delete schedule with existing appointments'')
            \<longrightarrow> snd (deleteSchedule st practiceId scheduleId) = st)
       \<and> (fst (deleteSchedule st practiceId scheduleId)
              \<noteq> Inl (BadRequestError ''Cannot delete schedule with existing appointments'')
            \<longrightarrow> deleteSchedule st practiceId scheduleId
                  = (Inr ''Schedule deleted successfully'',
                     st\<lparr>schedules := filter (\<lambda>s. sched_id s \<noteq> scheduleId) (schedules st)\<rparr>))"
proof -
  let ?conflicts = "schedule_conflicts schedule practiceId (appointments st)"
  have c: "?conflicts \<noteq> [] \<longleftrightarrow> (\<exists>a \<in> set (appointments st).
                   appt_doctorId a = sched_doctorId schedule \<and> appt_practiceId a = practiceId
                   \<and> sched_startTime schedule \<le> appt_startTime a
                   \<and> appt_endTime a \<le> sched_endTime schedule
                   \<and> (appt_status a = ''scheduled'' \<or> appt_status a = ''confirmed''))"
    by (auto simp add: schedule_conflicts_def filter_empty_conv)
  show ?thesis
  proof (cases "?conflicts = []")
    case True
    with assms have "deleteSchedule st practiceId scheduleId
        = (Inr ''Schedule deleted successfully'',
           st\<lparr>schedules := filter (\<lambda>s. sched_id s \<noteq> scheduleId) (schedules st)\<rparr>)"
      by (simp add: deleteSchedule_def)
    with True c show ?thesis by simp
  next
    case False
    with assms have "deleteSchedule st practiceId scheduleId
        = (Inl (BadRequestError ''Cannot delete schedule with existing appointments''), st)"
      by (simp add: deleteSchedule_def)
    with False c show ?thesis by simp
  qed
qed


theorem deleteSchedule_rejects_iff_witness:
  "deleteSchedule
       (example_schedule_store [example_appointment ''a1'' ''confirmed'' 1728036000000 1728037800000])
       ''p1'' ''sch1''
     = (Inl (BadRequestError ''Cannot delete schedule with existing appointments''),
        example_schedule_store [example_appointment ''a1'' ''confirmed'' 1728036000000 1728037800000])
   \<and> deleteSchedule (example_schedule_store []) ''p1'' ''sch1''
     = (Inr ''Schedule deleted successfully'', (example_schedule_store [])\<lparr>schedules := []\<rparr>)"
proof -
  let ?st = "example_schedule_store [example_appointment ''a1'' ''confirmed'' 1728036000000 1728037800000]"
  let ?sch = "\<lparr>sched_id = ''sch1'', sched_practiceId = ''p1'', sched_doctorId = ''d1'',
               sched_date = 20000, sched_startTime = 1728032400000::int,
               sched_endTime = 1728061200000\<rparr>"
  have f: "find (\<lambda>s. sched_id s = ''sch1'' \<and> sched_practiceId s = ''p1'') (schedules ?st) = Some ?sch"
    by (simp add: ex_defs)
  have g: "find (\<lambda>s. sched_id s = ''sch1'' \<and> sched_practiceId s = ''p1'')
             (schedules (example_schedule_store [])) = Some ?sch"
    by (simp add: ex_defs)
  have ex: "\<exists>a \<in> set (appointments ?st).
                   appt_doctorId a = sched_doctorId ?sch \<and> appt_practiceId a = ''p1''
                   \<and> sched_startTime ?sch \<le> appt_startTime a
                   \<and> appt_endTime a \<le> sched_endTime ?sch
                   \<and> (appt_status a = ''scheduled'' \<or> appt_status a = ''confirmed'')"
    by (simp add: ex_defs)
  have nex: "\<not> (\<exists>a \<in> set (appointments (example_schedule_store [])).
                   appt_doctorId a = sched_doctorId ?sch \<and> appt_practiceId a = ''p1''
                   \<and> sched_startTime ?sch \<le> appt_startTime a
                   \<and> appt_endTime a \<le> sched_endTime ?sch
                   \<and> (appt_status a = ''scheduled'' \<or> appt_status a = ''confirmed''))"
    by (simp add: ex_defs)
  from deleteSchedule_rejects_iff [OF f] ex
  have "fst (deleteSchedule ?st ''p1'' ''sch1'')
          = Inl (BadRequestError ''Cannot delete schedule with existing appointments'')
        \<and> snd (deleteSchedule ?st ''p1'' ''sch1'') = ?st"
    by blast
  then have 1: "deleteSchedule ?st ''p1'' ''sch1''
     = (Inl (BadRequestError ''Cannot delete schedule with existing appointments''), ?st)"
    by (simp add: prod_eq_iff)
  from deleteSchedule_rejects_iff [OF g] nex
  have "deleteSchedule (example_schedule_store []) ''p1'' ''sch1''
     = (Inr ''Schedule deleted successfully'',
        (example_schedule_store [])\<lparr>schedules := filter (\<lambda>s. sched_id s \<noteq> ''sch1'')
           (schedules (example_schedule_store []))\<rparr>)"
    by blast
  moreover have "filter (\<lambda>s. sched_id s \<noteq> ''sch1'') (schedules (example_schedule_store [])) = []"
    by (simp add: ex_defs)
  ultimately show ?thesis using 1 by simp
qed

end
